theory Spec2Isabelle
  imports Main
begin

section \<open>The CLI auto-installer: data model\<close>

text \<open>
  \<^verbatim>\<open>class InstallerError extends Error {}\<close> and
  \<^verbatim>\<open>class InvalidPlatformError extends Error {}\<close>, each with its message. \<open>Error\<close> is
  the plain JavaScript error that the host's file, archive and download primitives throw.
\<close>

datatype error = InstallerError string | InvalidPlatformError string | Error string

fun message :: "error \<Rightarrow> string" where
  "message (InstallerError m) = m"
| "message (InvalidPlatformError m) = m"
| "message (Error m) = m"

text \<open>
  The interface \<^verbatim>\<open>Cli\<close>. Its two nested objects \<^verbatim>\<open>command: {unix, windows}\<close> and
  \<^verbatim>\<open>source: {macos, windows, linux}\<close> are flattened into prefixed fields.
\<close>

record Cli =
  command_unix :: string
  command_windows :: string
  source_macos :: string
  source_windows :: string
  source_linux :: string
  manualInstallLink :: string
  name :: string

text \<open>\<^verbatim>\<open>type AwsClis = 'aws' | 'ssm'\<close> and the telemetry type \<^verbatim>\<open>Result\<close>.\<close>

datatype AwsClis = aws | ssm

datatype Result = Succeeded | Cancelled | Failed

subsection \<open>Effects\<close>

text \<open>
  Every call that leaves the module is recorded as an event, in the order in which the
  calls are made. \<open>Run command cwd args\<close> is
  \<^verbatim>\<open>new ChildProcess(true, command, {cwd}, ...args).run()\<close>; \<open>ExtractAllTo a d\<close> is
  \<^verbatim>\<open>new admZip(a).extractAllTo(d, true)\<close>; \<open>Fetch url dest\<close> is
  \<^verbatim>\<open>new HttpResourceFetcher(url, ...).get(dest).done\<close>; \<open>LoggerInfo\<close> and
  \<open>LoggerError\<close> are \<^verbatim>\<open>getLogger()\<close>, \<open>ChannelLoggerInfo\<close> is
  \<^verbatim>\<open>getLogger('channel')\<close>.
\<close>

datatype event =
    ShowInformationMessage string "string list"
  | ShowErrorMessage string "string list"
  | OpenExternal string
  | MakeTemporaryToolkitFolder
  | TryRemoveFolder string
  | Fetch string string
  | ChmodSync string nat
  | WriteFileSync string string
  | MkdirSync string
  | CopySync string string
  | ExtractAllTo string string
  | Run string "string option" "string list"
  | LoggerInfo string
  | LoggerError string
  | ChannelLoggerInfo string
  | RecordAwsInstallCli Result AwsClis

text \<open>
  The events that read or write the file system, start a process or use the network.
\<close>

fun touches_system :: "event \<Rightarrow> bool" where
  "touches_system MakeTemporaryToolkitFolder = True"
| "touches_system (TryRemoveFolder _) = True"
| "touches_system (Fetch _ _) = True"
| "touches_system (ChmodSync _ _) = True"
| "touches_system (WriteFileSync _ _) = True"
| "touches_system (MkdirSync _) = True"
| "touches_system (CopySync _ _) = True"
| "touches_system (ExtractAllTo _ _) = True"
| "touches_system (Run _ _ _) = True"
| "touches_system _ = False"

fun telemetry_of :: "event list \<Rightarrow> (Result \<times> AwsClis) list" where
  "telemetry_of [] = []"
| "telemetry_of (RecordAwsInstallCli r c # es) = (r, c) # telemetry_of es"
| "telemetry_of (_ # es) = telemetry_of es"

text \<open>
  The host environment. \<open>platform\<close> is \<^verbatim>\<open>process.platform\<close>, \<open>globalStoragePath\<close> is
  \<^verbatim>\<open>ext.context.globalStoragePath\<close>, \<open>company\<close> is \<^verbatim>\<open>getIdeProperties().company\<close>.
  The functions of Node's \<^verbatim>\<open>path\<close> module and \<^verbatim>\<open>vscode.Uri.file(p).fsPath\<close> are
  parameters: \<open>path_base\<close>, \<open>path_dir\<close> and \<open>path_name\<close> are the fields of
  \<^verbatim>\<open>path.parse(p)\<close>.

  The remaining fields answer the calls to the outside world. Each answer may depend on
  everything that happened before (the events so far), so a probe after an installation
  may differ from one before it.
  \<^item> \<open>selection\<close>: what \<^verbatim>\<open>window.showInformationMessage\<close> resolves to (or the error it
    rejects with); \<open>button\<close>: what \<^verbatim>\<open>window.showErrorMessage\<close> resolves to.
  \<^item> \<open>temporaryFolder\<close>: the result of \<^verbatim>\<open>makeTemporaryToolkitFolder()\<close>.
  \<^item> \<open>removed\<close>: the boolean \<^verbatim>\<open>tryRemoveFolder\<close> resolves to.
  \<^item> \<open>throws\<close>: for a file, archive or download event, the message of the error it throws,
    or \<open>None\<close> when it succeeds.
  \<^item> \<open>exitCode\<close>: the exit code of a process, given its command, working directory and
    arguments.
\<close>

record env =
  platform :: string
  globalStoragePath :: string
  company :: string
  path_join :: "string list \<Rightarrow> string"
  path_base :: "string \<Rightarrow> string"
  path_dir :: "string \<Rightarrow> string"
  path_name :: "string \<Rightarrow> string"
  path_dirname :: "string \<Rightarrow> string"
  uri_fsPath :: "string \<Rightarrow> string"
  selection :: "event list \<Rightarrow> string \<Rightarrow> string list \<Rightarrow> error + string option"
  button :: "event list \<Rightarrow> string \<Rightarrow> string list \<Rightarrow> string option"
  temporaryFolder :: "event list \<Rightarrow> error + string"
  removed :: "event list \<Rightarrow> string \<Rightarrow> bool"
  throws :: "event list \<Rightarrow> event \<Rightarrow> string option"
  exitCode :: "event list \<Rightarrow> string \<Rightarrow> string option \<Rightarrow> string list \<Rightarrow> int"

text \<open>
  A promise, run to its end: it resolves to a value, rejects with an error, or stays
  pending for ever. A computation takes the events so far and returns the outcome with
  the events extended.
\<close>

datatype 'a outcome = Resolved 'a | Rejected error | Pending

type_synonym 'a promise = "event list \<Rightarrow> 'a outcome \<times> event list"

definition resolve :: "'a \<Rightarrow> 'a promise" where
  "resolve a tr = (Resolved a, tr)"

definition reject :: "error \<Rightarrow> 'a promise" where
  "reject e tr = (Rejected e, tr)"

definition await :: "'a promise \<Rightarrow> ('a \<Rightarrow> 'b promise) \<Rightarrow> 'b promise" where
  "await m k tr =
     (case m tr of
        (Resolved a, tr') \<Rightarrow> k a tr'
      | (Rejected e, tr') \<Rightarrow> (Rejected e, tr')
      | (Pending, tr') \<Rightarrow> (Pending, tr'))"

definition emit :: "event \<Rightarrow> unit promise" where
  "emit ev tr = (Resolved (), tr @ [ev])"

text \<open>A synchronous host call that may throw: the event happens, then the error, if any.\<close>

definition attempt :: "env \<Rightarrow> event \<Rightarrow> unit promise" where
  "attempt E ev tr =
     (case throws E tr ev of
        None \<Rightarrow> (Resolved (), tr @ [ev])
      | Some m \<Rightarrow> (Rejected (Error m), tr @ [ev]))"

text \<open>
  Modelled from the spec: the class \<^verbatim>\<open>ChildProcess\<close> is not among the sources. The
  spec's subprocess-execution primitive returns an exit code, given a command, a working
  directory and an argument list; so \<^verbatim>\<open>run()\<close> always resolves, to the exit code the
  environment answers.
\<close>

definition ChildProcess_run :: "env \<Rightarrow> string \<Rightarrow> string option \<Rightarrow> string list \<Rightarrow> int promise" where
  "ChildProcess_run E command cwd args tr =
     (Resolved (exitCode E tr command cwd args), tr @ [Run command cwd args])"

subsection \<open>Decimal rendering of a number in a template string\<close>

definition digit :: "nat \<Rightarrow> char" where
  "digit d = ''0123456789'' ! d"

function string_of_nat :: "nat \<Rightarrow> string" where
  "string_of_nat n =
     (if n < 10 then [digit n] else string_of_nat (n div 10) @ [digit (n mod 10)])"
  by pat_completeness auto
termination
  by (relation "measure id") auto

declare string_of_nat.simps [simp del]

definition string_of_int :: "int \<Rightarrow> string" where
  "string_of_int i = (if i < 0 then ''-'' @ string_of_nat (nat (- i)) else string_of_nat (nat i))"

section \<open>The CLI registry\<close>

text \<open>
  \<^verbatim>\<open>AWS_CLIS\<close>. The relative paths are built with \<^verbatim>\<open>path.join\<close>, so the table depends on
  the environment's path module.
\<close>

definition AWS_CLIS :: "env \<Rightarrow> AwsClis \<Rightarrow> Cli" where
  "AWS_CLIS E cli =
     (case cli of
        aws \<Rightarrow>
          \<lparr> command_unix = path_join E [''AWSCLIV2'', ''aws''],
            command_windows = path_join E [''AWSCLIV2'', ''aws.exe''],
            source_macos = ''https://awscli.amazonaws.com/AWSCLIV2.pkg'',
            source_windows = ''https://awscli.amazonaws.com/AWSCLIV2.msi'',
            source_linux = ''https://awscli.amazonaws.com/awscli-exe-linux-x86_64.zip'',
            manualInstallLink = ''https://docs.aws.amazon.com/cli/latest/userguide/install-cliv2.html'',
            name = ''AWS'' \<rparr>
      | ssm \<Rightarrow>
          \<lparr> command_unix = path_join E [''sessionmanagerplugin'', ''bin'', ''session-manager-plugin''],
            command_windows = path_join E [''sessionmanagerplugin'', ''bin'', ''session-manager-plugin.exe''],
            source_macos = ''https://s3.amazonaws.com/session-manager-downloads/plugin/latest/mac/session-manager-plugin.pkg'',
            source_windows = ''https://REMOVED/plugin/1.2.269.0/windows/SessionManagerPlugin.zip'',
            source_linux = ''https://s3.amazonaws.com/session-manager-downloads/plugin/latest/ubuntu_64bit/session-manager-plugin.deb'',
            manualInstallLink = ''https://docs.aws.amazon.com/systems-manager/latest/userguide/session-manager-working-with-install-plugin.html'',
            name = ''Session Manager Plugin'' \<rparr>)"

section \<open>Platform resolution\<close>

definition getOsCommand :: "env \<Rightarrow> Cli \<Rightarrow> string" where
  "getOsCommand E cli = (if platform E = ''win32'' then command_windows cli else command_unix cli)"

definition getOsCliSource :: "env \<Rightarrow> Cli \<Rightarrow> error + string" where
  "getOsCliSource E cli =
     (if platform E = ''win32'' then Inr (source_windows cli)
      else if platform E = ''darwin'' then Inr (source_macos cli)
      else if platform E = ''linux'' then Inr (source_linux cli)
      else Inl (InvalidPlatformError
             (''Platform '' @ platform E @ '' is not supported for CLI autoinstallation.'')))"

definition getToolkitCliDir :: "env \<Rightarrow> string" where
  "getToolkitCliDir E = path_join E [globalStoragePath E, ''cli'']"

definition getToolkitLocalCliPath :: "env \<Rightarrow> string" where
  "getToolkitLocalCliPath E = path_join E [getToolkitCliDir E, ''Amazon'']"

section \<open>Probe\<close>

definition hasCliCommand :: "env \<Rightarrow> Cli \<Rightarrow> bool \<Rightarrow> string option promise" where
  "hasCliCommand E cli global =
     (let command = (if global then path_base E (getOsCommand E cli)
                     else path_join E [getToolkitLocalCliPath E, getOsCommand E cli])
      in await (ChildProcess_run E command None [''--version''])
           (\<lambda>result. resolve (if result = 0 then Some command else None)))"

text \<open>
  \<^verbatim>\<open>globalCommand ?? (await hasCliCommand(cli, false))\<close>: only \<^verbatim>\<open>undefined\<close> falls
  through to the local probe.
\<close>

definition getCliCommand :: "env \<Rightarrow> Cli \<Rightarrow> string option promise" where
  "getCliCommand E cli =
     await (hasCliCommand E cli True)
       (\<lambda>globalCommand. case globalCommand of
            Some c \<Rightarrow> resolve (Some c)
          | None \<Rightarrow> hasCliCommand E cli False)"

section \<open>Fetcher\<close>

definition downloadCliSource :: "env \<Rightarrow> Cli \<Rightarrow> string \<Rightarrow> string promise" where
  "downloadCliSource E cli tempDir =
     (case getOsCliSource E cli of
        Inl e \<Rightarrow> reject e
      | Inr installerSource \<Rightarrow>
          (let destinationFile = path_join E [tempDir, path_base E installerSource]
           in await (emit (LoggerInfo (''Downloading installer from '' @ installerSource @ ''...'')))
                (\<lambda>_. await (attempt E (Fetch installerSource destinationFile))
                (\<lambda>_. resolve destinationFile))))"

section \<open>Platform installers\<close>

definition installToolkitLocalMsi :: "env \<Rightarrow> string \<Rightarrow> string promise" where
  "installToolkitLocalMsi E msiPath =
     (if platform E \<noteq> ''win32''
      then reject (InvalidPlatformError (''Cannot install MSI files on operating system: '' @ platform E))
      else await (ChildProcess_run E ''msiexec'' None
                    [''/a'', msiPath, ''/quiet'', ''TARGETDIR='' @ uri_fsPath E (getToolkitCliDir E)])
             (\<lambda>result.
                if result \<noteq> 0
                then reject (InstallerError (''Installation of MSI file '' @ msiPath
                                              @ '' failed: Error Code '' @ string_of_int result))
                else resolve (path_join E [getToolkitCliDir E, getOsCommand E (AWS_CLIS E aws)])))"

definition installToolkitLocalPkg :: "env \<Rightarrow> string \<Rightarrow> string list \<Rightarrow> string promise" where
  "installToolkitLocalPkg E pkgPath args =
     (if platform E \<noteq> ''darwin''
      then reject (InvalidPlatformError (''Cannot install pkg files on operating system: '' @ platform E))
      else await (ChildProcess_run E ''installer'' None ([''--pkg'', pkgPath] @ args))
             (\<lambda>result.
                if result \<noteq> 0
                then reject (InstallerError (''Installation of PKG file '' @ pkgPath
                                              @ '' failed: Error Code '' @ string_of_int result))
                else resolve (path_join E [getToolkitCliDir E, getOsCommand E (AWS_CLIS E aws)])))"

definition installToolkitLocalLinuxAwsCli :: "env \<Rightarrow> string \<Rightarrow> string promise" where
  "installToolkitLocalLinuxAwsCli E archivePath =
     (if platform E \<noteq> ''linux''
      then reject (InvalidPlatformError (''Cannot use Linux installer on operating system: '' @ platform E))
      else
        (let dirname = path_join E [path_dir E archivePath, path_name E archivePath];
             installDir = path_join E [getToolkitCliDir E, ''Amazon'', ''AWSCLIV2'']
         in await (attempt E (ExtractAllTo archivePath dirname))
              (\<lambda>_. await (ChildProcess_run E ''sh'' None
                             [path_join E [dirname, ''aws'', ''install''], ''-i'', installDir, ''-b'', installDir])
              (\<lambda>result.
                 if result \<noteq> 0
                 then reject (InstallerError (''Installation of Linux CLI archive '' @ archivePath
                                               @ '' failed: Error Code '' @ string_of_int result))
                 else resolve (path_join E [getToolkitCliDir E, getOsCommand E (AWS_CLIS E aws)])))))"

text \<open>The property list written for the macOS installer, line by line as in the template.\<close>

definition choices_xml :: "string \<Rightarrow> string" where
  \<open>choices_xml customLocation =
     concat (map (\<lambda>l. l @ [CHR 0x0A])
       [''<?xml version="1.0" encoding="UTF-8"?>'',
        ''            <!DOCTYPE plist PUBLIC "-//Apple//DTD PLIST 1.0//EN" "http://www.apple.com/DTDs/PropertyList-1.0.dtd">'',
        ''            <plist version="1.0">'',
        ''                <array>'',
        ''                <dict>'',
        ''                    <key>choiceAttribute</key>'',
        ''                    <string>customLocation</string>'',
        ''                    <key>attributeSetting</key>'',
        ''                    <string>'' @ customLocation @ ''</string>'',
        ''                    <key>choiceIdentifier</key>'',
        ''                    <string>default</string>'',
        ''                </dict>'',
        ''                </array>''])
     @ ''            </plist>''\<close>

definition installAwsCli :: "env \<Rightarrow> string \<Rightarrow> string promise" where
  "installAwsCli E tempDir =
     await (downloadCliSource E (AWS_CLIS E aws) tempDir)
       (\<lambda>awsInstaller. await (attempt E (ChmodSync awsInstaller 448))
       (\<lambda>_. await (emit (ChannelLoggerInfo (''Installing AWS CLI from '' @ awsInstaller
                                              @ '' to '' @ getToolkitCliDir E @ ''...'')))
       (\<lambda>_. if platform E = ''win32'' then installToolkitLocalMsi E awsInstaller
             else if platform E = ''darwin'' then
               (let xmlPath = path_join E [tempDir, ''choices.xml'']
                in await (attempt E (WriteFileSync xmlPath (choices_xml (getToolkitLocalCliPath E))))
                     (\<lambda>_. installToolkitLocalPkg E awsInstaller
                             [''--target'', ''CurrentUserHomeDirectory'',
                              ''--applyChoiceChangesXML'', xmlPath]))
             else if platform E = ''linux'' then installToolkitLocalLinuxAwsCli E awsInstaller
             else reject (InvalidPlatformError
                            (''Unsupported platform for CLI installation: '' @ platform E)))))"

text \<open>
  \<^verbatim>\<open>try { ...; resolve(v) } catch (err) { reject(new InstallerError(err.message)) }\<close>
  inside a promise executor: an error thrown by the body rejects the promise with an
  \<open>InstallerError\<close> of the same message. The Windows branch guards the \<^verbatim>\<open>reject\<close> with
  \<^verbatim>\<open>if (err)\<close>; the errors of the model are objects, which are truthy.
\<close>

definition catch_reject_InstallerError :: "'a promise \<Rightarrow> 'a promise" where
  "catch_reject_InstallerError body tr =
     (case body tr of
        (Rejected e, tr') \<Rightarrow> (Rejected (InstallerError (message e)), tr')
      | r \<Rightarrow> r)"

text \<open>
  \<^verbatim>\<open>new Promise(async (resolve, reject) => { ...; resolve(v) })\<close> with no try block: the
  promise the async executor returns is dropped, so an error thrown by the body settles
  nothing and the constructed promise stays pending.
\<close>

definition async_executor :: "'a promise \<Rightarrow> 'a promise" where
  "async_executor body tr =
     (case body tr of
        (Rejected e, tr') \<Rightarrow> (Pending, tr')
      | r \<Rightarrow> r)"

definition installSsmCli :: "env \<Rightarrow> string \<Rightarrow> string promise" where
  "installSsmCli E tempDir =
     await (downloadCliSource E (AWS_CLIS E ssm) tempDir)
       (\<lambda>ssmInstaller.
          let outDir = path_join E [getToolkitLocalCliPath E, ''sessionmanagerplugin'']
          in await (emit (ChannelLoggerInfo (''Installing SSM CLI from '' @ ssmInstaller
                                               @ '' to '' @ outDir @ ''...'')))
       (\<lambda>_. if platform E = ''darwin'' then
               catch_reject_InstallerError
                 (let tempPath = path_join E [tempDir, ''tmp'']
                  in await (ChildProcess_run E ''pkgutil'' (Some tempDir)
                              [''--expand'', ''session-manager-plugin.pkg'', tempPath])
                       (\<lambda>_. await (ChildProcess_run E ''tar'' (Some tempPath)
                                      [''-xzf'', path_join E [tempPath, ''Payload'']])
                       (\<lambda>_. await (attempt E (CopySync
                                      (path_join E [tempPath, ''usr'', ''local'', ''sessionmanagerplugin''])
                                      outDir))
                       (\<lambda>_. resolve (path_join E [outDir, ''bin''])))))
             else if platform E = ''win32'' then
               (let secondZip = path_join E [tempDir, ''package.zip'']
                in catch_reject_InstallerError
                     (await (attempt E (ExtractAllTo ssmInstaller tempDir))
                        (\<lambda>_. await (attempt E (ExtractAllTo secondZip outDir))
                        (\<lambda>_. resolve (path_join E [outDir, ''bin''])))))
             else if platform E = ''linux'' then
               async_executor
                 (await (ChildProcess_run E ''ar'' (Some (path_dirname E ssmInstaller))
                           [''-x'', ssmInstaller])
                    (\<lambda>_. await (ChildProcess_run E ''tar'' (Some (path_dirname E ssmInstaller))
                                   [''-xzf'', path_join E [path_dirname E ssmInstaller, ''data.tar.gz'']])
                    (\<lambda>_. await (attempt E (MkdirSync outDir))
                    (\<lambda>_. await (attempt E (CopySync
                                   (path_join E [path_dirname E ssmInstaller,
                                                 ''usr'', ''local'', ''sessionmanagerplugin''])
                                   outDir))
                    (\<lambda>_. resolve (path_join E [outDir, ''bin'']))))))
             else reject (InvalidPlatformError
                            (''Platform '' @ platform E @ '' is not supported for CLI autoinstallation.''))))"

section \<open>Orchestrator\<close>

definition install :: string where
  "install = ''Install''"

definition manualInstall :: string where
  "manualInstall = ''Install manually...''"

definition installCliPrompt :: "env \<Rightarrow> AwsClis \<Rightarrow> string" where
  "installCliPrompt E cli =
     (company E @ '' Toolkit'') @ '' could not find '' @ name (AWS_CLIS E cli)
       @ '' CLI. Install a local copy?''"

definition failedInstall :: "env \<Rightarrow> AwsClis \<Rightarrow> string" where
  "failedInstall E cli = ''Installation of the '' @ name (AWS_CLIS E cli) @ '' CLI failed.''"

text \<open>JavaScript truthiness of a \<^verbatim>\<open>string | undefined\<close>: the empty string is falsy.\<close>

fun truthy :: "string option \<Rightarrow> bool" where
  "truthy None = False"
| "truthy (Some s) = (s \<noteq> [])"

text \<open>The \<^verbatim>\<open>switch (cli)\<close> of \<^verbatim>\<open>installCli\<close>.\<close>

definition install_selected :: "env \<Rightarrow> AwsClis \<Rightarrow> string \<Rightarrow> string promise" where
  "install_selected E cli tempDir =
     (case cli of aws \<Rightarrow> installAwsCli E tempDir | ssm \<Rightarrow> installSsmCli E tempDir)"

text \<open>
  The two variables of \<^verbatim>\<open>installCli\<close> that its \<^verbatim>\<open>finally\<close> block reads.
\<close>

record locals =
  result :: Result
  tempDir :: "string option"

text \<open>
  The end of the \<^verbatim>\<open>try\<close> block, from the \<^verbatim>\<open>switch\<close> to \<^verbatim>\<open>return cliPath\<close>:
  install, then validate with the local probe.
\<close>

definition install_and_validate :: "env \<Rightarrow> AwsClis \<Rightarrow> string \<Rightarrow> string option promise" where
  "install_and_validate E cli dir =
     await (install_selected E cli dir)
       (\<lambda>cliPath. await (hasCliCommand E (AWS_CLIS E cli) False)
       (\<lambda>found. if \<not> truthy found
                 then reject (InstallerError ''Could not verify installed CLIs'')
                 else resolve (Some cliPath)))"

text \<open>
  The \<^verbatim>\<open>try\<close> block: its outcome, the variables as it leaves them, and the events.
\<close>

definition installCli_try ::
  "env \<Rightarrow> AwsClis \<Rightarrow> event list \<Rightarrow> (string option outcome \<times> locals) \<times> event list" where
  "installCli_try E cli tr =
     (let items = [install, manualInstall];
          tr1 = tr @ [ShowInformationMessage (installCliPrompt E cli) items]
      in case selection E tr (installCliPrompt E cli) items of
           Inl e \<Rightarrow> ((Rejected e, \<lparr>result = Succeeded, tempDir = None\<rparr>), tr1)
         | Inr sel \<Rightarrow>
             if sel \<noteq> Some install then
               ((Resolved None, \<lparr>result = Cancelled, tempDir = None\<rparr>),
                if sel = Some manualInstall
                then tr1 @ [OpenExternal (manualInstallLink (AWS_CLIS E cli))] else tr1)
             else
               (case temporaryFolder E tr1 of
                  Inl e \<Rightarrow>
                    ((Rejected e, \<lparr>result = Succeeded, tempDir = None\<rparr>),
                     tr1 @ [MakeTemporaryToolkitFolder])
                | Inr dir \<Rightarrow>
                    (case install_and_validate E cli dir (tr1 @ [MakeTemporaryToolkitFolder]) of
                       (out, tr2) \<Rightarrow>
                         ((out, \<lparr>result = Succeeded, tempDir = Some dir\<rparr>), tr2))))"

text \<open>
  The \<^verbatim>\<open>catch\<close> block sets \<^verbatim>\<open>result\<close>, shows the error message and rethrows. The
  continuation registered on the message (\<^verbatim>\<open>.then(button => ...)\<close>) is not awaited: its
  events are returned apart, to happen after \<^verbatim>\<open>installCli\<close> has settled.
\<close>

definition installCli_catch ::
  "env \<Rightarrow> AwsClis \<Rightarrow> locals \<Rightarrow> event list \<Rightarrow> locals \<times> event list \<times> event list" where
  "installCli_catch E cli vars tr =
     (vars\<lparr>result := Failed\<rparr>,
      tr @ [ShowErrorMessage (failedInstall E cli) [manualInstall]],
      if button E tr (failedInstall E cli) [manualInstall] = Some manualInstall
      then [OpenExternal (manualInstallLink (AWS_CLIS E cli))] else [])"

text \<open>
  The \<^verbatim>\<open>finally\<close> block: \<^verbatim>\<open>tryRemoveFolder\<close> is started and not awaited (its
  continuation logs later), then the telemetry record is written.
\<close>

definition installCli_finally ::
  "env \<Rightarrow> AwsClis \<Rightarrow> locals \<Rightarrow> event list \<Rightarrow> event list \<times> event list" where
  "installCli_finally E cli vars tr =
     (case tempDir vars of
        Some dir \<Rightarrow>
          if dir \<noteq> [] then
            (tr @ [LoggerInfo ''Cleaning up installer...'', TryRemoveFolder dir,
                   RecordAwsInstallCli (result vars) cli],
             [if removed E (tr @ [LoggerInfo ''Cleaning up installer...'']) dir
              then LoggerInfo ''Removed installer.''
              else LoggerError (''Failed to clean up installer in temp directory: '' @ dir)])
          else (tr @ [RecordAwsInstallCli (result vars) cli], [])
      | None \<Rightarrow> (tr @ [RecordAwsInstallCli (result vars) cli], []))"

text \<open>
  \<^verbatim>\<open>installCli\<close>. While the \<^verbatim>\<open>try\<close> block is pending neither \<^verbatim>\<open>catch\<close> nor
  \<^verbatim>\<open>finally\<close> runs. Otherwise the events of the two continuations that nobody awaits
  follow the telemetry record, in the order in which they were registered.
\<close>

definition installCli :: "env \<Rightarrow> AwsClis \<Rightarrow> string option promise" where
  "installCli E cli tr =
     (case installCli_try E cli tr of
        ((Pending, vars), tr1) \<Rightarrow> (Pending, tr1)
      | ((Rejected err, vars), tr1) \<Rightarrow>
          (case installCli_catch E cli vars tr1 of
             (vars', tr2, later1) \<Rightarrow>
               (case installCli_finally E cli vars' tr2 of
                  (tr3, later2) \<Rightarrow> (Rejected err, tr3 @ later1 @ later2)))
      | ((Resolved v, vars), tr1) \<Rightarrow>
          (case installCli_finally E cli vars tr1 of
             (tr3, later2) \<Rightarrow> (Resolved v, tr3 @ later2)))"

section \<open>Auxiliary notions for the statements\<close>

text \<open>A computation that writes no telemetry record, whatever the events before it.\<close>

definition quiet :: "'a promise \<Rightarrow> bool" where
  "quiet m \<longleftrightarrow> (\<forall>tr. telemetry_of (snd (m tr)) = telemetry_of tr)"

subsection \<open>A concrete host\<close>

text \<open>
  A POSIX host for running the model on concrete inputs. The path functions agree with
  Node's \<^verbatim>\<open>path.posix\<close> on the paths used below: absolute, already normalised
  (no \<^verbatim>\<open>.\<close> or \<^verbatim>\<open>..\<close> segment, no doubled or trailing separator).
\<close>

fun segments :: "string list \<Rightarrow> string" where
  "segments [] = []"
| "segments [x] = x"
| "segments (x # y # ys) = x @ ''/'' @ segments (y # ys)"

definition posix_join :: "string list \<Rightarrow> string" where
  "posix_join xs =
     (let s = segments (filter (\<lambda>x. x \<noteq> []) xs)
      in if s = [] then ''.'' else s)"

definition posix_base :: "string \<Rightarrow> string" where
  "posix_base p = rev (takeWhile (\<lambda>c. c \<noteq> CHR ''/'') (rev p))"

definition posix_dir :: "string \<Rightarrow> string" where
  "posix_dir p =
     (let d = rev (drop 1 (dropWhile (\<lambda>c. c \<noteq> CHR ''/'') (rev p)))
      in if d = [] then filter (\<lambda>c. c = CHR ''/'') (take 1 p) else d)"

definition posix_dirname :: "string \<Rightarrow> string" where
  "posix_dirname p = (if posix_dir p = [] then ''.'' else posix_dir p)"

definition posix_name :: "string \<Rightarrow> string" where
  "posix_name p =
     (let b = posix_base p;
          stem = rev (drop 1 (dropWhile (\<lambda>c. c \<noteq> CHR ''.'') (rev b)))
      in if stem = [] then b else stem)"

text \<open>
  On this host the user chooses \<^verbatim>\<open>Install\<close>, every host call succeeds and every
  process exits with code 0; the variants below change one answer at a time.
\<close>

definition host :: "string \<Rightarrow> env" where
  "host os =
     \<lparr> platform = os,
       globalStoragePath = ''/storage'',
       company = ''AWS'',
       path_join = posix_join,
       path_base = posix_base,
       path_dir = posix_dir,
       path_name = posix_name,
       path_dirname = posix_dirname,
       uri_fsPath = (\<lambda>p. p),
       selection = (\<lambda>_ _ _. Inr (Some ''Install'')),
       button = (\<lambda>_ _ _. None),
       temporaryFolder = (\<lambda>_. Inr ''/tmp/t''),
       removed = (\<lambda>_ _. True),
       throws = (\<lambda>_ _. None),
       exitCode = (\<lambda>_ _ _ _. 0) \<rparr>"

text \<open>The processes named in \<open>failing\<close> exit with code 1, all others with code 0.\<close>

definition exits_1 :: "string list \<Rightarrow> event list \<Rightarrow> string \<Rightarrow> string option \<Rightarrow> string list \<Rightarrow> int" where
  "exits_1 failing tr command cwd args = (if command \<in> set failing then 1 else 0)"

text \<open>Copying a directory tree fails with the given message; every other host call succeeds.\<close>

definition copy_throws :: "string \<Rightarrow> event list \<Rightarrow> event \<Rightarrow> string option" where
  "copy_throws m tr ev = (case ev of CopySync src dst \<Rightarrow> Some m | _ \<Rightarrow> None)"

section \<open>Telemetry and cleanup: general facts\<close>

lemma telemetry_of_append: "telemetry_of (xs @ ys) = telemetry_of xs @ telemetry_of ys"
  by (induction xs rule: telemetry_of.induct) simp_all

lemma quiet_resolve: "quiet (resolve a)"
  by (simp add: quiet_def resolve_def)

lemma quiet_reject: "quiet (reject e)"
  by (simp add: quiet_def reject_def)

lemma quiet_emit: "telemetry_of [ev] = [] \<Longrightarrow> quiet (emit ev)"
  by (simp add: quiet_def emit_def telemetry_of_append)

lemma quiet_attempt: "telemetry_of [ev] = [] \<Longrightarrow> quiet (attempt E ev)"
  by (simp add: quiet_def attempt_def telemetry_of_append split: option.split)

lemma quiet_run: "quiet (ChildProcess_run E command cwd args)"
  by (simp add: quiet_def ChildProcess_run_def telemetry_of_append)

lemma quiet_await:
  assumes "quiet m" and "\<And>a. quiet (k a)"
  shows "quiet (await m k)"
  unfolding quiet_def
proof
  fix tr
  obtain r tr' where m: "m tr = (r, tr')" by (cases "m tr")
  with assms(1) have tr': "telemetry_of tr' = telemetry_of tr"
    by (metis quiet_def snd_conv)
  show "telemetry_of (snd (await m k tr)) = telemetry_of tr"
  proof (cases r)
    case (Resolved a)
    with m have "await m k tr = k a tr'" by (simp add: await_def)
    with assms(2) [of a] tr' show ?thesis by (simp add: quiet_def)
  next
    case (Rejected e)
    with m tr' show ?thesis by (simp add: await_def)
  next
    case Pending
    with m tr' show ?thesis by (simp add: await_def)
  qed
qed

lemma quiet_catch: "quiet m \<Longrightarrow> quiet (catch_reject_InstallerError m)"
  unfolding quiet_def catch_reject_InstallerError_def
  by (auto split: prod.split outcome.split) (metis snd_conv)+

lemma quiet_async_executor: "quiet m \<Longrightarrow> quiet (async_executor m)"
  unfolding quiet_def async_executor_def
  by (auto split: prod.split outcome.split) (metis snd_conv)+

lemmas quiet_intros =
  quiet_resolve quiet_reject quiet_emit quiet_attempt quiet_run quiet_await quiet_catch
  quiet_async_executor

lemma quiet_downloadCliSource: "quiet (downloadCliSource E cli dir)"
  by (auto simp: downloadCliSource_def Let_def split: sum.split intro!: quiet_intros)

lemma quiet_installToolkitLocalMsi: "quiet (installToolkitLocalMsi E p)"
  by (auto simp: installToolkitLocalMsi_def intro!: quiet_intros)

lemma quiet_installToolkitLocalPkg: "quiet (installToolkitLocalPkg E p args)"
  by (auto simp: installToolkitLocalPkg_def intro!: quiet_intros)

lemma quiet_installToolkitLocalLinuxAwsCli: "quiet (installToolkitLocalLinuxAwsCli E p)"
  by (auto simp: installToolkitLocalLinuxAwsCli_def Let_def intro!: quiet_intros)

lemma quiet_installAwsCli: "quiet (installAwsCli E dir)"
  by (auto simp: installAwsCli_def Let_def
      intro!: quiet_intros quiet_downloadCliSource quiet_installToolkitLocalMsi
        quiet_installToolkitLocalPkg quiet_installToolkitLocalLinuxAwsCli)

lemma quiet_installSsmCli: "quiet (installSsmCli E dir)"
  by (auto simp: installSsmCli_def Let_def intro!: quiet_intros quiet_downloadCliSource)

lemma quiet_install_selected: "quiet (install_selected E cli dir)"
  by (cases cli) (simp_all add: install_selected_def quiet_installAwsCli quiet_installSsmCli)

lemma quiet_hasCliCommand: "quiet (hasCliCommand E cli g)"
  by (auto simp: hasCliCommand_def Let_def intro!: quiet_intros)



lemma quiet_install_and_validate: "quiet (install_and_validate E cli dir)"
  by (auto simp: install_and_validate_def
      intro!: quiet_intros quiet_install_selected quiet_hasCliCommand)

lemma install_and_validate_telemetry:
  "install_and_validate E cli dir tr = (out, tr1) \<Longrightarrow> telemetry_of tr1 = telemetry_of tr"
  using quiet_install_and_validate [of E cli dir] by (auto simp: quiet_def dest: spec [of _ tr])

lemma install_and_validate_not_undefined:
  "install_and_validate E cli dir tr = (out, tr1) \<Longrightarrow> out \<noteq> Resolved None"
  by (auto simp: install_and_validate_def await_def reject_def resolve_def
      split: prod.splits outcome.splits if_splits)

lemma installCli_try_telemetry:
  assumes "installCli_try E cli tr = ((out, vars), tr1)"
  shows "telemetry_of tr1 = telemetry_of tr"
    and "out = Resolved None \<Longrightarrow> result vars = Cancelled"
    and "out = Resolved (Some p) \<Longrightarrow> result vars = Succeeded"
  using assms
  unfolding installCli_try_def Let_def
  by (auto simp: telemetry_of_append split: sum.splits if_splits prod.splits
      dest: install_and_validate_telemetry install_and_validate_not_undefined)

lemma installCli_finally_telemetry:
  "telemetry_of (fst (installCli_finally E cli vars tr) @ snd (installCli_finally E cli vars tr))
     = telemetry_of tr @ [(result vars, cli)]"
  by (simp add: installCli_finally_def telemetry_of_append split: option.split)

text \<open>
  Whenever \<^verbatim>\<open>installCli\<close> settles, it has written exactly one telemetry record, and the
  record matches the outcome. While it is pending it has written none.
\<close>

lemma installCli_telemetry:
  "telemetry_of (snd (installCli E cli tr)) =
     telemetry_of tr @
       (case fst (installCli E cli tr) of
          Resolved (Some p) \<Rightarrow> [(Succeeded, cli)]
        | Resolved None \<Rightarrow> [(Cancelled, cli)]
        | Rejected e \<Rightarrow> [(Failed, cli)]
        | Pending \<Rightarrow> [])"
proof -
  obtain out vars tr1 where t: "installCli_try E cli tr = ((out, vars), tr1)"
    by (metis surj_pair)
  note tel = installCli_try_telemetry [OF t]
  show ?thesis
  proof (cases out)
    case (Resolved v)
    obtain tr3 later where f: "installCli_finally E cli vars tr1 = (tr3, later)"
      by (cases "installCli_finally E cli vars tr1")
    from installCli_finally_telemetry [of E cli vars tr1] f
    have "telemetry_of (tr3 @ later) = telemetry_of tr1 @ [(result vars, cli)]" by simp
    with Resolved t f tel show ?thesis
      by (cases v) (simp_all add: installCli_def)
  next
    case (Rejected e)
    obtain tr3 later where f:
      "installCli_finally E cli (vars\<lparr>result := Failed\<rparr>)
         (tr1 @ [ShowErrorMessage (failedInstall E cli) [manualInstall]]) = (tr3, later)"
      by (metis surj_pair)
    from installCli_finally_telemetry
           [of E cli "vars\<lparr>result := Failed\<rparr>"
               "tr1 @ [ShowErrorMessage (failedInstall E cli) [manualInstall]]"] f
    have "telemetry_of (tr3 @ later) = telemetry_of tr1 @ [(Failed, cli)]"
      by (simp add: telemetry_of_append)
    with Rejected t f tel(1) show ?thesis
      by (simp add: installCli_def installCli_catch_def telemetry_of_append)
  next
    case Pending
    with t tel(1) show ?thesis by (simp add: installCli_def)
  qed
qed

subsection \<open>The answer of the cleanup does not reach the outcome\<close>

lemma AWS_CLIS_removed: "AWS_CLIS (E\<lparr>removed := r\<rparr>) = AWS_CLIS E"
  by (rule ext) (simp add: AWS_CLIS_def split: AwsClis.split)

lemma getOsCommand_removed: "getOsCommand (E\<lparr>removed := r\<rparr>) = getOsCommand E"
  by (rule ext) (simp add: getOsCommand_def)

lemma getOsCliSource_removed: "getOsCliSource (E\<lparr>removed := r\<rparr>) = getOsCliSource E"
  by (rule ext) (simp add: getOsCliSource_def)

lemma getToolkitCliDir_removed: "getToolkitCliDir (E\<lparr>removed := r\<rparr>) = getToolkitCliDir E"
  by (simp add: getToolkitCliDir_def)

lemma getToolkitLocalCliPath_removed:
  "getToolkitLocalCliPath (E\<lparr>removed := r\<rparr>) = getToolkitLocalCliPath E"
  by (simp add: getToolkitLocalCliPath_def getToolkitCliDir_removed)

lemma attempt_removed: "attempt (E\<lparr>removed := r\<rparr>) = attempt E"
  by (intro ext) (simp add: attempt_def)

lemma ChildProcess_run_removed: "ChildProcess_run (E\<lparr>removed := r\<rparr>) = ChildProcess_run E"
  by (intro ext) (simp add: ChildProcess_run_def)

lemmas primitives_removed =
  AWS_CLIS_removed getOsCommand_removed getOsCliSource_removed getToolkitCliDir_removed
  getToolkitLocalCliPath_removed attempt_removed ChildProcess_run_removed

lemma hasCliCommand_removed: "hasCliCommand (E\<lparr>removed := r\<rparr>) = hasCliCommand E"
  by (intro ext) (simp add: hasCliCommand_def primitives_removed cong: if_cong)

lemma downloadCliSource_removed: "downloadCliSource (E\<lparr>removed := r\<rparr>) = downloadCliSource E"
  by (intro ext) (simp add: downloadCliSource_def primitives_removed cong: if_cong split: sum.split)

lemma installToolkitLocalMsi_removed:
  "installToolkitLocalMsi (E\<lparr>removed := r\<rparr>) = installToolkitLocalMsi E"
  by (intro ext) (simp add: installToolkitLocalMsi_def primitives_removed cong: if_cong)

lemma installToolkitLocalPkg_removed:
  "installToolkitLocalPkg (E\<lparr>removed := r\<rparr>) = installToolkitLocalPkg E"
  by (intro ext) (simp add: installToolkitLocalPkg_def primitives_removed cong: if_cong)

lemma installToolkitLocalLinuxAwsCli_removed:
  "installToolkitLocalLinuxAwsCli (E\<lparr>removed := r\<rparr>) = installToolkitLocalLinuxAwsCli E"
  by (intro ext) (simp add: installToolkitLocalLinuxAwsCli_def primitives_removed cong: if_cong)

lemma installAwsCli_removed: "installAwsCli (E\<lparr>removed := r\<rparr>) = installAwsCli E"
  by (intro ext)
    (simp add: installAwsCli_def primitives_removed downloadCliSource_removed
      installToolkitLocalMsi_removed installToolkitLocalPkg_removed
      installToolkitLocalLinuxAwsCli_removed cong: if_cong)

lemma installSsmCli_removed: "installSsmCli (E\<lparr>removed := r\<rparr>) = installSsmCli E"
  by (intro ext) (simp add: installSsmCli_def primitives_removed downloadCliSource_removed cong: if_cong)

lemma install_and_validate_removed:
  "install_and_validate (E\<lparr>removed := r\<rparr>) = install_and_validate E"
  by (intro ext)
    (simp add: install_and_validate_def install_selected_def primitives_removed
      hasCliCommand_removed installAwsCli_removed installSsmCli_removed cong: if_cong split: AwsClis.split)

lemma installCliPrompt_removed: "installCliPrompt (E\<lparr>removed := r\<rparr>) = installCliPrompt E"
  by (rule ext) (simp add: installCliPrompt_def primitives_removed)

lemma failedInstall_removed: "failedInstall (E\<lparr>removed := r\<rparr>) = failedInstall E"
  by (rule ext) (simp add: failedInstall_def primitives_removed)

lemma installCli_try_removed: "installCli_try (E\<lparr>removed := r\<rparr>) = installCli_try E"
  by (intro ext)
    (simp add: installCli_try_def Let_def installCliPrompt_removed primitives_removed
      install_and_validate_removed cong: if_cong split: sum.split)

text \<open>
  Replacing the answers of \<^verbatim>\<open>tryRemoveFolder\<close> by any others changes neither the
  outcome of \<^verbatim>\<open>installCli\<close> nor its telemetry.
\<close>

lemma installCli_outcome_independent_of_cleanup:
  "fst (installCli (E\<lparr>removed := r\<rparr>) cli tr) = fst (installCli E cli tr)"
  by (simp add: installCli_def installCli_try_removed split: prod.split outcome.split)

lemma installCli_telemetry_independent_of_cleanup:
  "telemetry_of (snd (installCli (E\<lparr>removed := r\<rparr>) cli tr))
     = telemetry_of (snd (installCli E cli tr))"
  by (simp add: installCli_telemetry installCli_outcome_independent_of_cleanup)

section \<open>The installers of the AWS CLI check the exit code\<close>

lemma posix_join_not_empty: "posix_join xs \<noteq> []"
  by (simp add: posix_join_def Let_def)

lemma installToolkitLocalMsi_exit_code:
  assumes "platform E = ''win32''"
    and "exitCode E tr ''msiexec'' None
           [''/a'', msiPath, ''/quiet'', ''TARGETDIR='' @ uri_fsPath E (getToolkitCliDir E)] = c"
    and "c \<noteq> 0"
  shows "fst (installToolkitLocalMsi E msiPath tr) =
           Rejected (InstallerError (''Installation of MSI file '' @ msiPath
                                       @ '' failed: Error Code '' @ string_of_int c))"
  using assms
  by (simp add: installToolkitLocalMsi_def await_def ChildProcess_run_def reject_def)

lemma installToolkitLocalPkg_exit_code:
  assumes "platform E = ''darwin''"
    and "exitCode E tr ''installer'' None ([''--pkg'', pkgPath] @ args) = c"
    and "c \<noteq> 0"
  shows "fst (installToolkitLocalPkg E pkgPath args tr) =
           Rejected (InstallerError (''Installation of PKG file '' @ pkgPath
                                       @ '' failed: Error Code '' @ string_of_int c))"
  using assms
  by (simp add: installToolkitLocalPkg_def await_def ChildProcess_run_def reject_def)

lemma installToolkitLocalLinuxAwsCli_exit_code:
  assumes "platform E = ''linux''"
    and "throws E tr (ExtractAllTo archivePath
           (path_join E [path_dir E archivePath, path_name E archivePath])) = None"
    and "exitCode E
           (tr @ [ExtractAllTo archivePath
                    (path_join E [path_dir E archivePath, path_name E archivePath])])
           ''sh'' None
           [path_join E [path_join E [path_dir E archivePath, path_name E archivePath],
                         ''aws'', ''install''],
            ''-i'', path_join E [getToolkitCliDir E, ''Amazon'', ''AWSCLIV2''],
            ''-b'', path_join E [getToolkitCliDir E, ''Amazon'', ''AWSCLIV2'']] = c"
    and "c \<noteq> 0"
  shows "fst (installToolkitLocalLinuxAwsCli E archivePath tr) =
           Rejected (InstallerError (''Installation of Linux CLI archive '' @ archivePath
                                       @ '' failed: Error Code '' @ string_of_int c))"
  using assms
  by (simp add: installToolkitLocalLinuxAwsCli_def Let_def await_def attempt_def
      ChildProcess_run_def reject_def)

section \<open>The claims\<close>

text \<open>
  Claim C1. Every platform installer, for every external process it invokes, raises an
  \<open>InstallerError\<close> carrying the exit code and the artifact path when that process exits
  with a non-zero code. The three installers of the AWS CLI do (the lemmas above);
  \<^verbatim>\<open>installSsmCli\<close> does not. On Linux, when \<^verbatim>\<open>ar\<close> and \<^verbatim>\<open>tar\<close> exit with code 1
  and the copy of the missing tree then throws, no error is raised and the promise stays
  pending; when only \<^verbatim>\<open>ar\<close> exits with code 1 the installer resolves to the binary
  directory. On macOS, with \<^verbatim>\<open>pkgutil\<close> and \<^verbatim>\<open>tar\<close> exiting with code 1, the
  error raised is the one of the copy, with neither exit code nor artifact path.
\<close>

theorem installSsmCli_ignores_exit_codes:
  "installSsmCli ((host ''linux'')\<lparr>exitCode := exits_1 [''ar'', ''tar''],
                                     throws := copy_throws ''ENOENT''\<rparr>) ''/tmp/t'' []
     = (Pending,
        [LoggerInfo ''Downloading installer from https://s3.amazonaws.com/session-manager-downloads/plugin/latest/ubuntu_64bit/session-manager-plugin.deb...'',
         Fetch ''https://s3.amazonaws.com/session-manager-downloads/plugin/latest/ubuntu_64bit/session-manager-plugin.deb''
               ''/tmp/t/session-manager-plugin.deb'',
         ChannelLoggerInfo ''Installing SSM CLI from /tmp/t/session-manager-plugin.deb to /storage/cli/Amazon/sessionmanagerplugin...'',
         Run ''ar'' (Some ''/tmp/t'') [''-x'', ''/tmp/t/session-manager-plugin.deb''],
         Run ''tar'' (Some ''/tmp/t'') [''-xzf'', ''/tmp/t/data.tar.gz''],
         MkdirSync ''/storage/cli/Amazon/sessionmanagerplugin'',
         CopySync ''/tmp/t/usr/local/sessionmanagerplugin''
                  ''/storage/cli/Amazon/sessionmanagerplugin''])
   \<and> fst (installSsmCli ((host ''linux'')\<lparr>exitCode := exits_1 [''ar'']\<rparr>) ''/tmp/t'' [])
       = Resolved ''/storage/cli/Amazon/sessionmanagerplugin/bin''
   \<and> fst (installSsmCli ((host ''darwin'')\<lparr>exitCode := exits_1 [''pkgutil'', ''tar''],
                                            throws := copy_throws ''ENOENT''\<rparr>) ''/tmp/t'' [])
       = Rejected (InstallerError ''ENOENT'')
   \<and> fst (installSsmCli ((host ''darwin'')\<lparr>exitCode := exits_1 [''pkgutil'']\<rparr>) ''/tmp/t'' [])
       = Resolved ''/storage/cli/Amazon/sessionmanagerplugin/bin''"
  by code_simp

text \<open>
  Claim C2. A successful installer returns the directory of the tool's binary inside the
  managed install directory; on Linux \<^verbatim>\<open>installCli('aws')\<close> resolves to the directory
  where the binary was installed, under \<^verbatim>\<open><storageRoot>/cli/Amazon\<close>. On the Linux host,
  with every step succeeding, the install script is given
  \<^verbatim>\<open>/storage/cli/Amazon/AWSCLIV2\<close> for both directories and the probe runs
  \<^verbatim>\<open>/storage/cli/Amazon/AWSCLIV2/aws\<close>, but the value returned is
  \<^verbatim>\<open>/storage/cli/AWSCLIV2/aws\<close>: the path of a file, outside \<^verbatim>\<open>cli/Amazon\<close>.
\<close>

theorem installCli_aws_returns_file_beside_install_dir:
  "fst (installCli (host ''linux'') aws []) = Resolved (Some ''/storage/cli/AWSCLIV2/aws'')
   \<and> Run ''sh'' None [''/tmp/t/awscli-exe-linux-x86_64/aws/install'',
                      ''-i'', ''/storage/cli/Amazon/AWSCLIV2'',
                      ''-b'', ''/storage/cli/Amazon/AWSCLIV2'']
       \<in> set (snd (installCli (host ''linux'') aws []))
   \<and> Run ''/storage/cli/Amazon/AWSCLIV2/aws'' None [''--version'']
       \<in> set (snd (installCli (host ''linux'') aws []))
   \<and> telemetry_of (snd (installCli (host ''linux'') aws [])) = [(Succeeded, aws)]"
  by code_simp

text \<open>
  Claim C3. \<^verbatim>\<open>getCliCommand\<close> returns the bare command name when running it with
  \<^verbatim>\<open>--version\<close> exits with code 0; otherwise the full path inside the managed install
  directory when running that path with \<^verbatim>\<open>--version\<close> exits with code 0; otherwise
  \<^verbatim>\<open>undefined\<close>. It always resolves, and the local probe is not even run when the
  global one succeeds.
\<close>

theorem getCliCommand_prefers_global:
  "getCliCommand E cli tr =
     (let g = path_base E (getOsCommand E cli);
          l = path_join E [getToolkitLocalCliPath E, getOsCommand E cli];
          tr1 = tr @ [Run g None [''--version'']];
          tr2 = tr1 @ [Run l None [''--version'']]
      in if exitCode E tr g None [''--version''] = 0 then (Resolved (Some g), tr1)
         else if exitCode E tr1 l None [''--version''] = 0 then (Resolved (Some l), tr2)
         else (Resolved None, tr2))"
  by (simp add: getCliCommand_def hasCliCommand_def await_def ChildProcess_run_def resolve_def Let_def)

text \<open>
  Claim C4. On each of the platforms \<^verbatim>\<open>win32\<close>, \<^verbatim>\<open>darwin\<close> and \<^verbatim>\<open>linux\<close>, platform
  resolution returns that platform's own entries of the descriptor: the source URL of
  Windows, macOS or Linux, and the Windows binary path on \<^verbatim>\<open>win32\<close>, the unix one on the
  other two. For both tools of the registry they are non-empty (the path because
  \<^verbatim>\<open>path.join\<close> never returns the empty string). On any other platform the source
  lookup raises \<open>InvalidPlatformError\<close>, while the binary path lookup returns the unix
  path and does not raise. The error reaches the callers unchanged: the download and the
  installer chosen by the \<^verbatim>\<open>switch\<close> reject with it without a single event, and
  \<^verbatim>\<open>installCli\<close> rejects with it too, having shown the prompt and created the scratch
  directory before, and calling the removal of that directory and recording \<open>Failed\<close>
  after.
\<close>

theorem platform_resolution:
  assumes join: "\<forall>xs. path_join E xs \<noteq> []"
  shows "(platform E = ''win32'' \<longrightarrow>
            getOsCliSource E c = Inr (source_windows c) \<and> getOsCommand E c = command_windows c)
       \<and> (platform E = ''darwin'' \<longrightarrow>
            getOsCliSource E c = Inr (source_macos c) \<and> getOsCommand E c = command_unix c)
       \<and> (platform E = ''linux'' \<longrightarrow>
            getOsCliSource E c = Inr (source_linux c) \<and> getOsCommand E c = command_unix c)
       \<and> (platform E \<in> {''win32'', ''darwin'', ''linux''} \<longrightarrow>
            (\<exists>url. getOsCliSource E (AWS_CLIS E cli) = Inr url \<and> url \<noteq> [])
            \<and> getOsCommand E (AWS_CLIS E cli) \<noteq> [])
       \<and> (platform E \<notin> {''win32'', ''darwin'', ''linux''} \<longrightarrow>
            getOsCliSource E c
              = Inl (InvalidPlatformError
                  (''Platform '' @ platform E @ '' is not supported for CLI autoinstallation.''))
            \<and> getOsCommand E c = command_unix c
            \<and> downloadCliSource E c dir tr
              = (Rejected (InvalidPlatformError
                  (''Platform '' @ platform E @ '' is not supported for CLI autoinstallation.'')), tr)
            \<and> install_selected E cli dir tr
              = (Rejected (InvalidPlatformError
                  (''Platform '' @ platform E @ '' is not supported for CLI autoinstallation.'')), tr)
            \<and> (selection E tr (installCliPrompt E cli) [install, manualInstall] = Inr (Some install)
                 \<longrightarrow> temporaryFolder E
                       (tr @ [ShowInformationMessage (installCliPrompt E cli) [install, manualInstall]])
                     = Inr dir
                 \<longrightarrow> dir \<noteq> []
                 \<longrightarrow> installCli E cli tr
                     = (Rejected (InvalidPlatformError
                          (''Platform '' @ platform E @ '' is not supported for CLI autoinstallation.'')),
                        tr @ [ShowInformationMessage (installCliPrompt E cli) [install, manualInstall],
                              MakeTemporaryToolkitFolder,
                              ShowErrorMessage (failedInstall E cli) [manualInstall],
                              LoggerInfo ''Cleaning up installer...'',
                              TryRemoveFolder dir,
                              RecordAwsInstallCli Failed cli]
                           @ (if button E
                                   (tr @ [ShowInformationMessage (installCliPrompt E cli)
                                            [install, manualInstall],
                                          MakeTemporaryToolkitFolder])
                                   (failedInstall E cli) [manualInstall] = Some manualInstall
                              then [OpenExternal (manualInstallLink (AWS_CLIS E cli))] else [])
                           @ [if removed E
                                   (tr @ [ShowInformationMessage (installCliPrompt E cli)
                                            [install, manualInstall],
                                          MakeTemporaryToolkitFolder,
                                          ShowErrorMessage (failedInstall E cli) [manualInstall],
                                          LoggerInfo ''Cleaning up installer...''])
                                   dir
                              then LoggerInfo ''Removed installer.''
                              else LoggerError
                                     (''Failed to clean up installer in temp directory: '' @ dir)])))"
proof -
  define m where "m = ''Platform '' @ platform E @ '' is not supported for CLI autoinstallation.''"
  have win: "platform E = ''win32'' \<longrightarrow>
               getOsCliSource E c = Inr (source_windows c) \<and> getOsCommand E c = command_windows c"
    by (simp add: getOsCliSource_def getOsCommand_def)
  have mac: "platform E = ''darwin'' \<longrightarrow>
               getOsCliSource E c = Inr (source_macos c) \<and> getOsCommand E c = command_unix c"
    by (simp add: getOsCliSource_def getOsCommand_def)
  have lin: "platform E = ''linux'' \<longrightarrow>
               getOsCliSource E c = Inr (source_linux c) \<and> getOsCommand E c = command_unix c"
    by (simp add: getOsCliSource_def getOsCommand_def)
  have url: "platform E \<in> {''win32'', ''darwin'', ''linux''} \<longrightarrow>
               (\<exists>url. getOsCliSource E (AWS_CLIS E cli) = Inr url \<and> url \<noteq> [])"
    by (cases cli) (auto simp: getOsCliSource_def AWS_CLIS_def)
  from join have cmd: "getOsCommand E (AWS_CLIS E cli) \<noteq> []"
    by (cases cli) (simp_all add: getOsCommand_def AWS_CLIS_def)
  have other: "getOsCliSource E c = Inl (InvalidPlatformError m)
             \<and> getOsCommand E c = command_unix c
             \<and> downloadCliSource E c dir tr = (Rejected (InvalidPlatformError m), tr)
             \<and> install_selected E cli dir tr = (Rejected (InvalidPlatformError m), tr)
             \<and> (selection E tr (installCliPrompt E cli) [install, manualInstall] = Inr (Some install)
                 \<longrightarrow> temporaryFolder E
                       (tr @ [ShowInformationMessage (installCliPrompt E cli) [install, manualInstall]])
                     = Inr dir
                 \<longrightarrow> dir \<noteq> []
                 \<longrightarrow> installCli E cli tr
                     = (Rejected (InvalidPlatformError m),
                        tr @ [ShowInformationMessage (installCliPrompt E cli) [install, manualInstall],
                              MakeTemporaryToolkitFolder,
                              ShowErrorMessage (failedInstall E cli) [manualInstall],
                              LoggerInfo ''Cleaning up installer...'',
                              TryRemoveFolder dir,
                              RecordAwsInstallCli Failed cli]
                           @ (if button E
                                   (tr @ [ShowInformationMessage (installCliPrompt E cli)
                                            [install, manualInstall],
                                          MakeTemporaryToolkitFolder])
                                   (failedInstall E cli) [manualInstall] = Some manualInstall
                              then [OpenExternal (manualInstallLink (AWS_CLIS E cli))] else [])
                           @ [if removed E
                                   (tr @ [ShowInformationMessage (installCliPrompt E cli)
                                            [install, manualInstall],
                                          MakeTemporaryToolkitFolder,
                                          ShowErrorMessage (failedInstall E cli) [manualInstall],
                                          LoggerInfo ''Cleaning up installer...''])
                                   dir
                              then LoggerInfo ''Removed installer.''
                              else LoggerError
                                     (''Failed to clean up installer in temp directory: '' @ dir)]))"
    if unsupported: "platform E \<notin> {''win32'', ''darwin'', ''linux''}"
  proof -
    from unsupported have src: "getOsCliSource E c' = Inl (InvalidPlatformError m)" for c'
      by (simp add: getOsCliSource_def m_def)
    from unsupported have unix: "getOsCommand E c = command_unix c"
      by (simp add: getOsCommand_def)
    from src have dl: "downloadCliSource E c' dir tr' = (Rejected (InvalidPlatformError m), tr')"
      for c' tr'
      by (simp add: downloadCliSource_def reject_def)
    then have sel: "install_selected E cli dir tr' = (Rejected (InvalidPlatformError m), tr')" for tr'
      by (cases cli) (simp_all add: install_selected_def installAwsCli_def installSsmCli_def await_def)
    then have iv: "install_and_validate E cli dir tr' = (Rejected (InvalidPlatformError m), tr')"
      for tr'
      by (simp add: install_and_validate_def await_def)
    have top: "installCli E cli tr
                     = (Rejected (InvalidPlatformError m),
                        tr @ [ShowInformationMessage (installCliPrompt E cli) [install, manualInstall],
                              MakeTemporaryToolkitFolder,
                              ShowErrorMessage (failedInstall E cli) [manualInstall],
                              LoggerInfo ''Cleaning up installer...'',
                              TryRemoveFolder dir,
                              RecordAwsInstallCli Failed cli]
                           @ (if button E
                                   (tr @ [ShowInformationMessage (installCliPrompt E cli)
                                            [install, manualInstall],
                                          MakeTemporaryToolkitFolder])
                                   (failedInstall E cli) [manualInstall] = Some manualInstall
                              then [OpenExternal (manualInstallLink (AWS_CLIS E cli))] else [])
                           @ [if removed E
                                   (tr @ [ShowInformationMessage (installCliPrompt E cli)
                                            [install, manualInstall],
                                          MakeTemporaryToolkitFolder,
                                          ShowErrorMessage (failedInstall E cli) [manualInstall],
                                          LoggerInfo ''Cleaning up installer...''])
                                   dir
                              then LoggerInfo ''Removed installer.''
                              else LoggerError
                                     (''Failed to clean up installer in temp directory: '' @ dir)])"
      if s: "selection E tr (installCliPrompt E cli) [install, manualInstall] = Inr (Some install)"
        and t: "temporaryFolder E
                  (tr @ [ShowInformationMessage (installCliPrompt E cli) [install, manualInstall]])
                = Inr dir"
        and d: "dir \<noteq> []"
    proof -
      from s t iv have "installCli_try E cli tr
          = ((Rejected (InvalidPlatformError m), \<lparr>result = Succeeded, tempDir = Some dir\<rparr>),
             tr @ [ShowInformationMessage (installCliPrompt E cli) [install, manualInstall],
                   MakeTemporaryToolkitFolder])"
        by (simp add: installCli_try_def Let_def)
      with d show ?thesis
        by (simp add: installCli_def installCli_catch_def installCli_finally_def)
    qed
    from src [of c] unix dl [of c tr] sel [of tr] top show ?thesis by blast
  qed
  from win mac lin url cmd other show ?thesis
    unfolding m_def by blast
qed

theorem platform_resolution_witness:
  "(\<forall>xs. path_join (host ''win32'') xs \<noteq> [])
   \<and> platform (host ''win32'') = ''win32''
   \<and> getOsCliSource (host ''win32'') (AWS_CLIS (host ''win32'') aws)
       = Inr ''https://awscli.amazonaws.com/AWSCLIV2.msi''
   \<and> getOsCommand (host ''win32'') (AWS_CLIS (host ''win32'') aws)
       = command_windows (AWS_CLIS (host ''win32'') aws)
   \<and> (\<forall>xs. path_join (host ''darwin'') xs \<noteq> [])
   \<and> platform (host ''darwin'') = ''darwin''
   \<and> getOsCliSource (host ''darwin'') (AWS_CLIS (host ''darwin'') ssm)
       = Inr ''https://s3.amazonaws.com/session-manager-downloads/plugin/latest/mac/session-manager-plugin.pkg''
   \<and> getOsCommand (host ''darwin'') (AWS_CLIS (host ''darwin'') ssm)
       = ''sessionmanagerplugin/bin/session-manager-plugin''
   \<and> (\<forall>xs. path_join (host ''linux'') xs \<noteq> [])
   \<and> platform (host ''linux'') = ''linux''
   \<and> platform (host ''linux'') \<in> {''win32'', ''darwin'', ''linux''}
   \<and> getOsCliSource (host ''linux'') (AWS_CLIS (host ''linux'') aws)
       = Inr ''https://awscli.amazonaws.com/awscli-exe-linux-x86_64.zip''
   \<and> getOsCommand (host ''linux'') (AWS_CLIS (host ''linux'') aws) = ''AWSCLIV2/aws''
   \<and> getOsCommand (host ''linux'') (AWS_CLIS (host ''linux'') aws) \<noteq> []
   \<and> (\<forall>xs. path_join (host ''freebsd'') xs \<noteq> [])
   \<and> platform (host ''freebsd'') \<notin> {''win32'', ''darwin'', ''linux''}
   \<and> getOsCliSource (host ''freebsd'') (AWS_CLIS (host ''freebsd'') ssm)
       = Inl (InvalidPlatformError ''Platform freebsd is not supported for CLI autoinstallation.'')
   \<and> getOsCommand (host ''freebsd'') (AWS_CLIS (host ''freebsd'') ssm)
       = ''sessionmanagerplugin/bin/session-manager-plugin''
   \<and> install_selected (host ''freebsd'') ssm ''/tmp/t'' []
       = (Rejected (InvalidPlatformError
                      ''Platform freebsd is not supported for CLI autoinstallation.''), [])
   \<and> selection (host ''freebsd'') [] (installCliPrompt (host ''freebsd'') ssm)
         [install, manualInstall] = Inr (Some install)
   \<and> temporaryFolder (host ''freebsd'')
         [ShowInformationMessage (installCliPrompt (host ''freebsd'') ssm) [install, manualInstall]]
       = Inr ''/tmp/t''
   \<and> installCli (host ''freebsd'') ssm []
       = (Rejected (InvalidPlatformError
                      ''Platform freebsd is not supported for CLI autoinstallation.''),
          [ShowInformationMessage
             ''AWS Toolkit could not find Session Manager Plugin CLI. Install a local copy?''
             [''Install'', ''Install manually...''],
           MakeTemporaryToolkitFolder,
           ShowErrorMessage ''Installation of the Session Manager Plugin CLI failed.''
             [''Install manually...''],
           LoggerInfo ''Cleaning up installer...'',
           TryRemoveFolder ''/tmp/t'',
           RecordAwsInstallCli Failed ssm,
           LoggerInfo ''Removed installer.''])"
proof -
  have join: "\<forall>xs. path_join (host os) xs \<noteq> []" for os
    by (simp add: host_def posix_join_not_empty)
  have p: "platform (host os) = os" for os
    by (simp add: host_def)
  have supported: "platform (host ''linux'') \<in> {''win32'', ''darwin'', ''linux''}"
    by (simp add: host_def)
  have unsupported: "platform (host ''freebsd'') \<notin> {''win32'', ''darwin'', ''linux''}"
    by (simp add: host_def)
  have s: "selection (host ''freebsd'') [] (installCliPrompt (host ''freebsd'') ssm)
             [install, manualInstall] = Inr (Some install)"
    by (simp add: host_def install_def)
  have t: "temporaryFolder (host ''freebsd'')
             ([] @ [ShowInformationMessage (installCliPrompt (host ''freebsd'') ssm)
                      [install, manualInstall]])
           = Inr ''/tmp/t''"
    by (simp add: host_def)
  have d: "''/tmp/t'' \<noteq> []" by simp
  have cmds: "command_unix (AWS_CLIS (host os) aws) = ''AWSCLIV2/aws''"
    "command_unix (AWS_CLIS (host os) ssm) = ''sessionmanagerplugin/bin/session-manager-plugin''"
    for os
    by (simp_all add: AWS_CLIS_def host_def posix_join_def)
  have urls: "source_windows (AWS_CLIS (host ''win32'') aws) = ''https://awscli.amazonaws.com/AWSCLIV2.msi''"
    "source_macos (AWS_CLIS (host ''darwin'') ssm)
       = ''https://s3.amazonaws.com/session-manager-downloads/plugin/latest/mac/session-manager-plugin.pkg''"
    "source_linux (AWS_CLIS (host ''linux'') aws)
       = ''https://awscli.amazonaws.com/awscli-exe-linux-x86_64.zip''"
    by (simp_all add: AWS_CLIS_def)
  have texts: "installCliPrompt (host ''freebsd'') ssm
                 = ''AWS Toolkit could not find Session Manager Plugin CLI. Install a local copy?''"
    "failedInstall (host ''freebsd'') ssm = ''Installation of the Session Manager Plugin CLI failed.''"
    "install = ''Install''" "manualInstall = ''Install manually...''"
    by (simp_all add: installCliPrompt_def failedInstall_def AWS_CLIS_def host_def
        install_def manualInstall_def)
  have answers: "button (host ''freebsd'') tr1 msg items = None"
    "removed (host ''freebsd'') tr2 dir = True" for tr1 msg items tr2 dir
    by (simp_all add: host_def)
  note win = platform_resolution [OF join, of "''win32''" "AWS_CLIS (host ''win32'') aws"]
  note mac = platform_resolution [OF join, of "''darwin''" "AWS_CLIS (host ''darwin'') ssm"]
  note lin = platform_resolution [OF join, of "''linux''" "AWS_CLIS (host ''linux'') aws" aws]
  note bsd = platform_resolution [OF join, of "''freebsd''" "AWS_CLIS (host ''freebsd'') ssm" ssm
               "''/tmp/t''" "[]"]
  from win p [of "''win32''"] urls
  have w: "getOsCliSource (host ''win32'') (AWS_CLIS (host ''win32'') aws)
             = Inr ''https://awscli.amazonaws.com/AWSCLIV2.msi''
           \<and> getOsCommand (host ''win32'') (AWS_CLIS (host ''win32'') aws)
             = command_windows (AWS_CLIS (host ''win32'') aws)"
    by simp
  from mac p [of "''darwin''"] urls cmds
  have m: "getOsCliSource (host ''darwin'') (AWS_CLIS (host ''darwin'') ssm)
             = Inr ''https://s3.amazonaws.com/session-manager-downloads/plugin/latest/mac/session-manager-plugin.pkg''
           \<and> getOsCommand (host ''darwin'') (AWS_CLIS (host ''darwin'') ssm)
             = ''sessionmanagerplugin/bin/session-manager-plugin''"
    by simp
  from lin p [of "''linux''"] urls cmds
  have l: "getOsCliSource (host ''linux'') (AWS_CLIS (host ''linux'') aws)
             = Inr ''https://awscli.amazonaws.com/awscli-exe-linux-x86_64.zip''
           \<and> getOsCommand (host ''linux'') (AWS_CLIS (host ''linux'') aws) = ''AWSCLIV2/aws''
           \<and> getOsCommand (host ''linux'') (AWS_CLIS (host ''linux'') aws) \<noteq> []"
    by simp
  from bsd unsupported
  have b0: "getOsCliSource (host ''freebsd'') (AWS_CLIS (host ''freebsd'') ssm)
              = Inl (InvalidPlatformError
                  (''Platform '' @ platform (host ''freebsd'') @ '' is not supported for CLI autoinstallation.''))"
    and b1: "getOsCommand (host ''freebsd'') (AWS_CLIS (host ''freebsd'') ssm)
              = command_unix (AWS_CLIS (host ''freebsd'') ssm)"
    and b2: "install_selected (host ''freebsd'') ssm ''/tmp/t'' []
              = (Rejected (InvalidPlatformError
                  (''Platform '' @ platform (host ''freebsd'') @ '' is not supported for CLI autoinstallation.'')), [])"
    by blast+
  from bsd unsupported s t d
  have b3: "installCli (host ''freebsd'') ssm []
       = (Rejected (InvalidPlatformError
                      ''Platform freebsd is not supported for CLI autoinstallation.''),
          [ShowInformationMessage
             ''AWS Toolkit could not find Session Manager Plugin CLI. Install a local copy?''
             [''Install'', ''Install manually...''],
           MakeTemporaryToolkitFolder,
           ShowErrorMessage ''Installation of the Session Manager Plugin CLI failed.''
             [''Install manually...''],
           LoggerInfo ''Cleaning up installer...'',
           TryRemoveFolder ''/tmp/t'',
           RecordAwsInstallCli Failed ssm,
           LoggerInfo ''Removed installer.''])"
    by (simp add: texts answers p)
  from b0 b1 b2 have b: "getOsCliSource (host ''freebsd'') (AWS_CLIS (host ''freebsd'') ssm)
       = Inl (InvalidPlatformError ''Platform freebsd is not supported for CLI autoinstallation.'')
   \<and> getOsCommand (host ''freebsd'') (AWS_CLIS (host ''freebsd'') ssm)
       = ''sessionmanagerplugin/bin/session-manager-plugin''
   \<and> install_selected (host ''freebsd'') ssm ''/tmp/t'' []
       = (Rejected (InvalidPlatformError
                      ''Platform freebsd is not supported for CLI autoinstallation.''), [])"
    by (simp add: p cmds)
  from t have t': "temporaryFolder (host ''freebsd'')
         [ShowInformationMessage (installCliPrompt (host ''freebsd'') ssm) [install, manualInstall]]
       = Inr ''/tmp/t''"
    by simp
  from join [of "''win32''"] join [of "''darwin''"] join [of "''linux''"] join [of "''freebsd''"]
    p [of "''win32''"] p [of "''darwin''"] p [of "''linux''"] supported unsupported
    w m l b s t' b3
  show ?thesis by blast
qed

text \<open>
  The claim as it was written also has the binary path lookup raise on a platform outside
  the three families, and no partial work before the error. On \<^verbatim>\<open>freebsd\<close> the lookup
  returns the unix path, and \<^verbatim>\<open>installCli\<close> has created the scratch directory when the
  error arrives.
\<close>

theorem platform_resolution_counterexample:
  "platform (host ''freebsd'') \<notin> {''win32'', ''darwin'', ''linux''}
   \<and> getOsCommand (host ''freebsd'') (AWS_CLIS (host ''freebsd'') aws) = ''AWSCLIV2/aws''
   \<and> installCli (host ''freebsd'') aws []
       = (Rejected (InvalidPlatformError
                      ''Platform freebsd is not supported for CLI autoinstallation.''),
          [ShowInformationMessage ''AWS Toolkit could not find AWS CLI. Install a local copy?''
             [''Install'', ''Install manually...''],
           MakeTemporaryToolkitFolder,
           ShowErrorMessage ''Installation of the AWS CLI failed.'' [''Install manually...''],
           LoggerInfo ''Cleaning up installer...'',
           TryRemoveFolder ''/tmp/t'',
           RecordAwsInstallCli Failed aws,
           LoggerInfo ''Removed installer.''])"
  by code_simp

text \<open>
  Claim C5. When the prompt resolves to anything but \<^verbatim>\<open>Install\<close> (dismissed, or
  \<^verbatim>\<open>Install manually...\<close>), \<^verbatim>\<open>installCli\<close> resolves to \<^verbatim>\<open>undefined\<close>; its events
  are the prompt, the opening of the manual-install link if that was chosen, and one
  telemetry record with result \<open>Cancelled\<close>. No scratch directory is created, so none is
  left behind.
\<close>

theorem installCli_declined:
  assumes "selection E tr (installCliPrompt E cli) [install, manualInstall] = Inr sel"
    and "sel \<noteq> Some install"
  shows "installCli E cli tr =
           (Resolved None,
            tr @ [ShowInformationMessage (installCliPrompt E cli) [install, manualInstall]]
               @ (if sel = Some manualInstall
                  then [OpenExternal (manualInstallLink (AWS_CLIS E cli))] else [])
               @ [RecordAwsInstallCli Cancelled cli])"
  using assms
  by (simp add: installCli_def installCli_try_def installCli_finally_def Let_def)

theorem installCli_declined_witness:
  "selection ((host ''linux'')\<lparr>selection := (\<lambda>_ _ _. Inr (Some ''Install manually...''))\<rparr>) []
     (installCliPrompt ((host ''linux'')\<lparr>selection := (\<lambda>_ _ _. Inr (Some ''Install manually...''))\<rparr>) aws)
     [install, manualInstall] = Inr (Some ''Install manually...'')
   \<and> Some ''Install manually...'' \<noteq> Some install
   \<and> installCli ((host ''linux'')\<lparr>selection := (\<lambda>_ _ _. Inr (Some ''Install manually...''))\<rparr>) aws []
       = (Resolved None,
          [ShowInformationMessage ''AWS Toolkit could not find AWS CLI. Install a local copy?''
             [''Install'', ''Install manually...''],
           OpenExternal ''https://docs.aws.amazon.com/cli/latest/userguide/install-cliv2.html'',
           RecordAwsInstallCli Cancelled aws])"
proof -
  define E where "E = (host ''linux'')\<lparr>selection := (\<lambda>_ _ _. Inr (Some ''Install manually...''))\<rparr>"
  have h1: "selection E [] (installCliPrompt E aws) [install, manualInstall]
              = Inr (Some ''Install manually...'')"
    by (simp add: E_def)
  have h2: "Some ''Install manually...'' \<noteq> Some install"
    by (simp add: install_def)
  have "installCli E aws [] =
          (Resolved None,
           [ShowInformationMessage ''AWS Toolkit could not find AWS CLI. Install a local copy?''
              [''Install'', ''Install manually...''],
            OpenExternal ''https://docs.aws.amazon.com/cli/latest/userguide/install-cliv2.html'',
            RecordAwsInstallCli Cancelled aws])"
    using installCli_declined [OF h1 h2]
    by (simp add: E_def host_def installCliPrompt_def AWS_CLIS_def install_def manualInstall_def)
  with h1 h2 show ?thesis unfolding E_def by blast
qed

text \<open>
  Claim C6. When the user chose \<^verbatim>\<open>Install\<close>, the scratch directory was created and the
  selected installer rejects with an error, \<^verbatim>\<open>installCli\<close> rejects with the same error,
  the session's only telemetry record has result \<open>Failed\<close>, and after the installer's
  events come the error message, the cleanup log line, the call of
  \<^verbatim>\<open>tryRemoveFolder\<close> on the scratch directory and the telemetry record.
\<close>

theorem installCli_installer_throws:
  assumes sel: "selection E tr (installCliPrompt E cli) [install, manualInstall] = Inr (Some install)"
    and tmp: "temporaryFolder E
                (tr @ [ShowInformationMessage (installCliPrompt E cli) [install, manualInstall]])
              = Inr dir"
    and dir: "dir \<noteq> []"
    and thr: "install_selected E cli dir
                (tr @ [ShowInformationMessage (installCliPrompt E cli) [install, manualInstall],
                       MakeTemporaryToolkitFolder])
              = (Rejected err, tr')"
  shows "fst (installCli E cli tr) = Rejected err
       \<and> telemetry_of (snd (installCli E cli tr)) = telemetry_of tr @ [(Failed, cli)]
       \<and> (\<exists>later. snd (installCli E cli tr) =
                     tr' @ [ShowErrorMessage (failedInstall E cli) [manualInstall],
                            LoggerInfo ''Cleaning up installer...'',
                            TryRemoveFolder dir,
                            RecordAwsInstallCli Failed cli] @ later)"
proof -
  from thr have "install_and_validate E cli dir
                   (tr @ [ShowInformationMessage (installCliPrompt E cli) [install, manualInstall],
                          MakeTemporaryToolkitFolder])
                 = (Rejected err, tr')"
    by (simp add: install_and_validate_def await_def)
  with sel tmp have tried:
    "installCli_try E cli tr = ((Rejected err, \<lparr>result = Succeeded, tempDir = Some dir\<rparr>), tr')"
    by (simp add: installCli_try_def Let_def)
  with dir have out: "fst (installCli E cli tr) = Rejected err"
    and events: "\<exists>later. snd (installCli E cli tr) =
                   tr' @ [ShowErrorMessage (failedInstall E cli) [manualInstall],
                          LoggerInfo ''Cleaning up installer...'',
                          TryRemoveFolder dir,
                          RecordAwsInstallCli Failed cli] @ later"
    by (simp_all add: installCli_def installCli_catch_def installCli_finally_def)
  from out installCli_telemetry [of E cli tr]
  have "telemetry_of (snd (installCli E cli tr)) = telemetry_of tr @ [(Failed, cli)]"
    by simp
  with out events show ?thesis by blast
qed

theorem installCli_installer_throws_witness:
  "selection ((host ''linux'')\<lparr>exitCode := exits_1 [''sh'']\<rparr>) []
     (installCliPrompt ((host ''linux'')\<lparr>exitCode := exits_1 [''sh'']\<rparr>) aws)
     [install, manualInstall] = Inr (Some install)
   \<and> temporaryFolder ((host ''linux'')\<lparr>exitCode := exits_1 [''sh'']\<rparr>)
       [ShowInformationMessage
          (installCliPrompt ((host ''linux'')\<lparr>exitCode := exits_1 [''sh'']\<rparr>) aws)
          [install, manualInstall]] = Inr ''/tmp/t''
   \<and> fst (install_selected ((host ''linux'')\<lparr>exitCode := exits_1 [''sh'']\<rparr>) aws ''/tmp/t''
            [ShowInformationMessage
               (installCliPrompt ((host ''linux'')\<lparr>exitCode := exits_1 [''sh'']\<rparr>) aws)
               [install, manualInstall],
             MakeTemporaryToolkitFolder])
       = Rejected (InstallerError
           ''Installation of Linux CLI archive /tmp/t/awscli-exe-linux-x86_64.zip failed: Error Code 1'')
   \<and> fst (installCli ((host ''linux'')\<lparr>exitCode := exits_1 [''sh'']\<rparr>) aws [])
       = Rejected (InstallerError
           ''Installation of Linux CLI archive /tmp/t/awscli-exe-linux-x86_64.zip failed: Error Code 1'')
   \<and> telemetry_of (snd (installCli ((host ''linux'')\<lparr>exitCode := exits_1 [''sh'']\<rparr>) aws []))
       = [(Failed, aws)]
   \<and> TryRemoveFolder ''/tmp/t''
       \<in> set (snd (installCli ((host ''linux'')\<lparr>exitCode := exits_1 [''sh'']\<rparr>) aws []))"
proof -
  define E where "E = (host ''linux'')\<lparr>exitCode := exits_1 [''sh'']\<rparr>"
  define tr' where "tr' = snd (install_selected E aws ''/tmp/t''
      [ShowInformationMessage (installCliPrompt E aws) [install, manualInstall],
       MakeTemporaryToolkitFolder])"
  have h1: "selection E [] (installCliPrompt E aws) [install, manualInstall] = Inr (Some install)"
    by (simp add: E_def host_def install_def)
  have h2: "temporaryFolder E
              ([] @ [ShowInformationMessage (installCliPrompt E aws) [install, manualInstall]])
            = Inr ''/tmp/t''"
    by (simp add: E_def host_def)
  have h3: "''/tmp/t'' \<noteq> []" by simp
  have thrown: "fst (install_selected E aws ''/tmp/t''
               [ShowInformationMessage (installCliPrompt E aws) [install, manualInstall],
                MakeTemporaryToolkitFolder])
        = Rejected (InstallerError
            ''Installation of Linux CLI archive /tmp/t/awscli-exe-linux-x86_64.zip failed: Error Code 1'')"
    unfolding E_def by code_simp
  then have h4: "install_selected E aws ''/tmp/t''
               ([] @ [ShowInformationMessage (installCliPrompt E aws) [install, manualInstall],
                MakeTemporaryToolkitFolder])
        = (Rejected (InstallerError
            ''Installation of Linux CLI archive /tmp/t/awscli-exe-linux-x86_64.zip failed: Error Code 1''), tr')"
    by (simp add: tr'_def prod_eq_iff)
  from installCli_installer_throws [OF h1 h2 h3 h4] h1 h2 thrown show ?thesis
    unfolding E_def by auto
qed

text \<open>
  Claim C7. When the user chose \<^verbatim>\<open>Install\<close>, the scratch directory was created, the
  selected installer resolved, and the local probe of the installed tool then exits with
  a non-zero code, \<^verbatim>\<open>installCli\<close> rejects with
  \<^verbatim>\<open>InstallerError("Could not verify installed CLIs")\<close> and the session's only telemetry
  record has result \<open>Failed\<close>.
\<close>

theorem installCli_verification_fails:
  assumes sel: "selection E tr (installCliPrompt E cli) [install, manualInstall] = Inr (Some install)"
    and tmp: "temporaryFolder E
                (tr @ [ShowInformationMessage (installCliPrompt E cli) [install, manualInstall]])
              = Inr dir"
    and inst: "install_selected E cli dir
                (tr @ [ShowInformationMessage (installCliPrompt E cli) [install, manualInstall],
                       MakeTemporaryToolkitFolder])
              = (Resolved cliPath, tr')"
    and probe: "exitCode E tr'
                  (path_join E [getToolkitLocalCliPath E, getOsCommand E (AWS_CLIS E cli)])
                  None [''--version''] \<noteq> 0"
  shows "fst (installCli E cli tr) = Rejected (InstallerError ''Could not verify installed CLIs'')
       \<and> telemetry_of (snd (installCli E cli tr)) = telemetry_of tr @ [(Failed, cli)]"
proof -
  define l where "l = path_join E [getToolkitLocalCliPath E, getOsCommand E (AWS_CLIS E cli)]"
  from probe have "hasCliCommand E (AWS_CLIS E cli) False tr'
                     = (Resolved None, tr' @ [Run l None [''--version'']])"
    by (simp add: hasCliCommand_def Let_def await_def ChildProcess_run_def resolve_def l_def)
  with inst have "install_and_validate E cli dir
                   (tr @ [ShowInformationMessage (installCliPrompt E cli) [install, manualInstall],
                          MakeTemporaryToolkitFolder])
                 = (Rejected (InstallerError ''Could not verify installed CLIs''),
                    tr' @ [Run l None [''--version'']])"
    by (simp add: install_and_validate_def await_def reject_def)
  with sel tmp have "installCli_try E cli tr
                       = ((Rejected (InstallerError ''Could not verify installed CLIs''),
                           \<lparr>result = Succeeded, tempDir = Some dir\<rparr>),
                          tr' @ [Run l None [''--version'']])"
    by (simp add: installCli_try_def Let_def)
  then have out: "fst (installCli E cli tr)
                    = Rejected (InstallerError ''Could not verify installed CLIs'')"
    by (simp add: installCli_def installCli_catch_def split: prod.split)
  with installCli_telemetry [of E cli tr] show ?thesis by simp
qed

theorem installCli_verification_fails_witness:
  "selection ((host ''linux'')\<lparr>exitCode := exits_1 [''/storage/cli/Amazon/AWSCLIV2/aws'']\<rparr>) []
     (installCliPrompt ((host ''linux'')\<lparr>exitCode := exits_1 [''/storage/cli/Amazon/AWSCLIV2/aws'']\<rparr>) aws)
     [install, manualInstall] = Inr (Some install)
   \<and> temporaryFolder ((host ''linux'')\<lparr>exitCode := exits_1 [''/storage/cli/Amazon/AWSCLIV2/aws'']\<rparr>)
       [ShowInformationMessage
          (installCliPrompt ((host ''linux'')\<lparr>exitCode := exits_1 [''/storage/cli/Amazon/AWSCLIV2/aws'']\<rparr>) aws)
          [install, manualInstall]] = Inr ''/tmp/t''
   \<and> fst (install_selected ((host ''linux'')\<lparr>exitCode := exits_1 [''/storage/cli/Amazon/AWSCLIV2/aws'']\<rparr>)
            aws ''/tmp/t''
            [ShowInformationMessage
               (installCliPrompt ((host ''linux'')\<lparr>exitCode := exits_1 [''/storage/cli/Amazon/AWSCLIV2/aws'']\<rparr>) aws)
               [install, manualInstall],
             MakeTemporaryToolkitFolder])
       = Resolved ''/storage/cli/AWSCLIV2/aws''
   \<and> fst (installCli ((host ''linux'')\<lparr>exitCode := exits_1 [''/storage/cli/Amazon/AWSCLIV2/aws'']\<rparr>) aws [])
       = Rejected (InstallerError ''Could not verify installed CLIs'')
   \<and> telemetry_of (snd (installCli
         ((host ''linux'')\<lparr>exitCode := exits_1 [''/storage/cli/Amazon/AWSCLIV2/aws'']\<rparr>) aws []))
       = [(Failed, aws)]"
proof -
  define E where "E = (host ''linux'')\<lparr>exitCode := exits_1 [''/storage/cli/Amazon/AWSCLIV2/aws'']\<rparr>"
  define tr' where "tr' = snd (install_selected E aws ''/tmp/t''
      [ShowInformationMessage (installCliPrompt E aws) [install, manualInstall],
       MakeTemporaryToolkitFolder])"
  have h1: "selection E [] (installCliPrompt E aws) [install, manualInstall] = Inr (Some install)"
    by (simp add: E_def host_def install_def)
  have h2: "temporaryFolder E
              ([] @ [ShowInformationMessage (installCliPrompt E aws) [install, manualInstall]])
            = Inr ''/tmp/t''"
    by (simp add: E_def host_def)
  have installed: "fst (install_selected E aws ''/tmp/t''
               [ShowInformationMessage (installCliPrompt E aws) [install, manualInstall],
                MakeTemporaryToolkitFolder])
        = Resolved ''/storage/cli/AWSCLIV2/aws''"
    unfolding E_def by code_simp
  then have h3: "install_selected E aws ''/tmp/t''
               ([] @ [ShowInformationMessage (installCliPrompt E aws) [install, manualInstall],
                MakeTemporaryToolkitFolder])
        = (Resolved ''/storage/cli/AWSCLIV2/aws'', tr')"
    by (simp add: tr'_def prod_eq_iff)
  have l: "path_join E [getToolkitLocalCliPath E, getOsCommand E (AWS_CLIS E aws)]
             = ''/storage/cli/Amazon/AWSCLIV2/aws''"
    unfolding E_def by code_simp
  have h4: "exitCode E tr'
              (path_join E [getToolkitLocalCliPath E, getOsCommand E (AWS_CLIS E aws)])
              None [''--version''] \<noteq> 0"
    unfolding l by (simp add: E_def exits_1_def)
  from installCli_verification_fails [OF h1 h2 h3 h4] h1 h2 installed show ?thesis
    unfolding E_def by simp
qed

text \<open>
  Claim C8. Every invocation of \<^verbatim>\<open>installCli\<close> emits exactly one telemetry record,
  matching its outcome, and a failing cleanup changes nothing. The general facts above
  show this for every invocation that settles. On Linux, when \<^verbatim>\<open>ar\<close> and \<^verbatim>\<open>tar\<close>
  fail and the copy of the missing tree throws inside the async promise executor of
  \<^verbatim>\<open>installSsmCli\<close>, the invocation never settles: there is no telemetry record and
  \<^verbatim>\<open>tryRemoveFolder\<close> is never called on the scratch directory that was created.
\<close>

theorem installCli_pending_without_telemetry:
  "installCli ((host ''linux'')\<lparr>exitCode := exits_1 [''ar'', ''tar''],
                                  throws := copy_throws ''ENOENT''\<rparr>) ssm []
     = (Pending,
        [ShowInformationMessage
           ''AWS Toolkit could not find Session Manager Plugin CLI. Install a local copy?''
           [''Install'', ''Install manually...''],
         MakeTemporaryToolkitFolder,
         LoggerInfo ''Downloading installer from https://s3.amazonaws.com/session-manager-downloads/plugin/latest/ubuntu_64bit/session-manager-plugin.deb...'',
         Fetch ''https://s3.amazonaws.com/session-manager-downloads/plugin/latest/ubuntu_64bit/session-manager-plugin.deb''
               ''/tmp/t/session-manager-plugin.deb'',
         ChannelLoggerInfo ''Installing SSM CLI from /tmp/t/session-manager-plugin.deb to /storage/cli/Amazon/sessionmanagerplugin...'',
         Run ''ar'' (Some ''/tmp/t'') [''-x'', ''/tmp/t/session-manager-plugin.deb''],
         Run ''tar'' (Some ''/tmp/t'') [''-xzf'', ''/tmp/t/data.tar.gz''],
         MkdirSync ''/storage/cli/Amazon/sessionmanagerplugin'',
         CopySync ''/tmp/t/usr/local/sessionmanagerplugin''
                  ''/storage/cli/Amazon/sessionmanagerplugin''])"
  by code_simp

text \<open>
  Claim C9. On every platform \<^verbatim>\<open>getCliCommand\<close> resolves; it never raises. On every
  platform other than \<^verbatim>\<open>win32\<close> the value is \<^verbatim>\<open>undefined\<close> or one of the two commands
  built from the unix relative path, also on the platforms where the source lookup of the
  installer raises \<open>InvalidPlatformError\<close>.
\<close>

theorem getCliCommand_total_on_every_platform:
  "\<exists>r. fst (getCliCommand E cli tr) = Resolved r
      \<and> (platform E \<noteq> ''win32'' \<longrightarrow>
           r \<in> {None, Some (path_base E (command_unix cli)),
                 Some (path_join E [getToolkitLocalCliPath E, command_unix cli])})
      \<and> (platform E \<notin> {''win32'', ''darwin'', ''linux''} \<longrightarrow>
           (\<exists>m. getOsCliSource E cli = Inl (InvalidPlatformError m)))"
  by (simp add: getCliCommand_def hasCliCommand_def await_def ChildProcess_run_def resolve_def
      Let_def getOsCommand_def getOsCliSource_def)

theorem getCliCommand_total_on_every_platform_witness:
  "platform ((host ''freebsd'')\<lparr>exitCode := exits_1 [''aws'']\<rparr>) \<noteq> ''win32''
   \<and> platform ((host ''freebsd'')\<lparr>exitCode := exits_1 [''aws'']\<rparr>) \<notin> {''win32'', ''darwin'', ''linux''}
   \<and> fst (getCliCommand ((host ''freebsd'')\<lparr>exitCode := exits_1 [''aws'']\<rparr>)
            (AWS_CLIS ((host ''freebsd'')\<lparr>exitCode := exits_1 [''aws'']\<rparr>) aws) [])
       = Resolved (Some ''/storage/cli/Amazon/AWSCLIV2/aws'')
   \<and> (\<exists>m. getOsCliSource ((host ''freebsd'')\<lparr>exitCode := exits_1 [''aws'']\<rparr>)
             (AWS_CLIS ((host ''freebsd'')\<lparr>exitCode := exits_1 [''aws'']\<rparr>) aws)
           = Inl (InvalidPlatformError m))"
proof -
  define E where "E = (host ''freebsd'')\<lparr>exitCode := exits_1 [''aws'']\<rparr>"
  have p1: "platform E \<noteq> ''win32''" by (simp add: E_def host_def)
  have p2: "platform E \<notin> {''win32'', ''darwin'', ''linux''}" by (simp add: E_def host_def)
  have v: "fst (getCliCommand E (AWS_CLIS E aws) []) = Resolved (Some ''/storage/cli/Amazon/AWSCLIV2/aws'')"
    unfolding E_def by code_simp
  from getCliCommand_total_on_every_platform [of E "AWS_CLIS E aws" "[]"] p2
  have "\<exists>m. getOsCliSource E (AWS_CLIS E aws) = Inl (InvalidPlatformError m)"
    by blast
  with p1 p2 v show ?thesis unfolding E_def by blast
qed

text \<open>
  Claim C10. When the prompt does not resolve to \<^verbatim>\<open>Install\<close>, none of the events of
  \<^verbatim>\<open>installCli\<close> touches the file system, a process or the network: no scratch
  directory is created, no download starts and nothing is written to the managed install
  directory.
\<close>

theorem installCli_no_effects_unless_install:
  assumes "selection E tr (installCliPrompt E cli) [install, manualInstall] \<noteq> Inr (Some install)"
  shows "\<exists>new. snd (installCli E cli tr) = tr @ new \<and> (\<forall>ev \<in> set new. \<not> touches_system ev)"
proof (cases "selection E tr (installCliPrompt E cli) [install, manualInstall]")
  case (Inl e)
  then show ?thesis
    by (simp add: installCli_def installCli_try_def installCli_catch_def installCli_finally_def Let_def)
next
  case (Inr sel)
  with assms have "sel \<noteq> Some install" by simp
  with Inr show ?thesis
    by (simp add: installCli_def installCli_try_def installCli_finally_def Let_def)
qed

theorem installCli_no_effects_unless_install_witness:
  "selection ((host ''linux'')\<lparr>selection := (\<lambda>_ _ _. Inr None)\<rparr>) []
     (installCliPrompt ((host ''linux'')\<lparr>selection := (\<lambda>_ _ _. Inr None)\<rparr>) ssm)
     [install, manualInstall] \<noteq> Inr (Some install)
   \<and> (\<exists>new. snd (installCli ((host ''linux'')\<lparr>selection := (\<lambda>_ _ _. Inr None)\<rparr>) ssm []) = [] @ new
            \<and> (\<forall>ev \<in> set new. \<not> touches_system ev))"
proof -
  define E where "E = (host ''linux'')\<lparr>selection := (\<lambda>_ _ _. Inr None)\<rparr>"
  have h: "selection E [] (installCliPrompt E ssm) [install, manualInstall] \<noteq> Inr (Some install)"
    by (simp add: E_def)
  from h installCli_no_effects_unless_install [OF h] show ?thesis
    unfolding E_def by blast
qed

end
